theory Spec2Isabelle
  imports Main "HOL-Library.Sublist"
begin

section \<open>JavaScript values\<close>

text \<open>
  A JavaScript string is a sequence of UTF-16 code units; the model keeps each code unit
  as a natural number. \<open>js\<close> turns an ASCII literal into such a sequence.
\<close>

type_synonym jsstring = "nat list"

definition js :: "string \<Rightarrow> jsstring" where
  "js s = map of_char s"

text \<open>
  The values a parsed JSON body, a property read or the global \<^verbatim>\<open>state\<close> object can hold.
  Numbers are kept as integers: the program only tests them for truthiness.
\<close>

datatype jsval =
    JUndefined
  | JNull
  | JBool bool
  | JNum int
  | JStr jsstring
  | JArr "jsval list"
  | JObj "(jsstring \<times> jsval) list"

text \<open>Truthiness, as \<^verbatim>\<open>if (x)\<close>, \<^verbatim>\<open>!x\<close>, \<^verbatim>\<open>x || y\<close> and \<^verbatim>\<open>x && y\<close> read it.\<close>

fun truthy :: "jsval \<Rightarrow> bool" where
  "truthy JUndefined = False"
| "truthy JNull = False"
| "truthy (JBool b) = b"
| "truthy (JNum n) = (n \<noteq> 0)"
| "truthy (JStr s) = (s \<noteq> [])"
| "truthy (JArr xs) = True"
| "truthy (JObj kvs) = True"

definition js_or :: "jsval \<Rightarrow> jsval \<Rightarrow> jsval" where
  "js_or a b = (if truthy a then a else b)"

text \<open>
  What the program can catch: an \<^verbatim>\<open>Error\<close> it throws itself (with the value it was given
  as message), and the rejections of the runtime (a failed \<^verbatim>\<open>fetch\<close>, a body that is not
  JSON or cannot be read, a property read on \<^verbatim>\<open>null\<close> or \<^verbatim>\<open>undefined\<close>), each with its
  message.
\<close>

datatype js_error =
    Error jsval
  | NetworkError jsstring
  | BodyError jsstring
  | TypeError jsstring

text \<open>
  A property read \<^verbatim>\<open>x.k\<close> for the keys the program reads (\<^verbatim>\<open>detail\<close>,
  \<^verbatim>\<open>conversation_id\<close>, \<^verbatim>\<open>response\<close>, \<^verbatim>\<open>model\<close>, \<^verbatim>\<open>filename\<close>): it throws on
  \<^verbatim>\<open>null\<close> and \<^verbatim>\<open>undefined\<close>, looks the key up in an object, and is \<^verbatim>\<open>undefined\<close> on
  every other value.
\<close>

fun get_prop :: "jsval \<Rightarrow> jsstring \<Rightarrow> js_error + jsval" where
  "get_prop JUndefined k = Inl (TypeError (js ''Cannot read properties of undefined''))"
| "get_prop JNull k = Inl (TypeError (js ''Cannot read properties of null''))"
| "get_prop (JObj kvs) k = Inr (case map_of kvs k of None \<Rightarrow> JUndefined | Some v \<Rightarrow> v)"
| "get_prop v k = Inr JUndefined"

section \<open>The network\<close>

text \<open>
  A response as the program reads it: the status, what \<^verbatim>\<open>res.json()\<close> settles to
  (\<open>Inl\<close> when the body is not JSON) and what \<^verbatim>\<open>res.blob()\<close> settles to.
  \<^verbatim>\<open>res.ok\<close> is true for the statuses 200 to 299.
\<close>

type_synonym blob = "nat list"

record response =
  status :: nat
  json :: "jsstring + jsval"
  blob :: "jsstring + blob"

definition ok :: "response \<Rightarrow> bool" where
  "ok res = (200 \<le> status res \<and> status res \<le> 299)"

text \<open>What an awaited \<^verbatim>\<open>fetch\<close> settles to: a rejection (no response) or a response.\<close>

datatype fetch_outcome = Rejected jsstring | Responded response

text \<open>
  The requests the program issues, relative to \<^verbatim>\<open>API_BASE\<close>:
  \<^verbatim>\<open>GET /\<close>, \<^verbatim>\<open>POST /chat\<close> with the body's \<^verbatim>\<open>message\<close> and \<^verbatim>\<open>conversation_id\<close>,
  \<^verbatim>\<open>DELETE /documents/<doc_id>\<close> and \<^verbatim>\<open>POST /chat/<id>/export\<close>.
\<close>

datatype request =
    Get_root
  | Post_chat jsstring jsval
  | Delete_document jsstring
  | Post_export jsval

section \<open>The page and the global state\<close>

text \<open>
  The children of \<^verbatim>\<open>#messagesContainer\<close>: the placeholder that \<^verbatim>\<open>newConversation\<close> writes
  (\<^verbatim>\<open>data-placeholder="true"\<close>), or a message wrapper with its class name and the text
  given to \<^verbatim>\<open>addMessageToUI\<close> (its bubble shows \<^verbatim>\<open>formatMessageText(text)\<close>).
\<close>

datatype child = Placeholder | Bubble jsstring jsval

text \<open>What \<^verbatim>\<open>renderDocuments\<close> writes into \<^verbatim>\<open>#documentsList\<close>.\<close>

datatype docs_view = No_documents_uploaded_yet | Document_items "jsstring list"

text \<open>The four \<^verbatim>\<open>alert\<close> calls of the export and delete handlers.\<close>

datatype alert =
    No_conversation_to_export
  | Failed_to_export_chat
  | Export_failed js_error
  | Error_deleting_document js_error

text \<open>
  Everything the handlers read or write: the fields of \<^verbatim>\<open>state\<close> they use, the elements
  they look up (\<open>None\<close> when \<^verbatim>\<open>getElementById\<close> finds nothing), and the effects they have
  on the outside, each as a log in order: requests issued, alerts shown, console errors,
  files delivered for download (conversation id of the file name, contents).
\<close>

record world =
  currentConversationId :: jsval
  documents :: "(jsstring \<times> jsval) list"
  chatInput :: "jsstring option"
  messagesContainer :: "child list option"
  backendStatus :: "jsstring option"
  ragStatus :: "jsstring option"
  modelStatus :: "jsval option"
  documentsList :: "docs_view option"
  requests :: "request list"
  alerts :: "alert list"
  console :: "(jsstring \<times> js_error) list"
  downloads :: "(jsval \<times> blob) list"

text \<open>
  An async handler runs up to its first \<^verbatim>\<open>await\<close> when it is called: it has either
  returned by then, or it is suspended on the request it issued and resumes when that
  request settles. Other handlers can run in between.
\<close>

datatype call = Returned world | Awaiting world

definition fetch :: "request \<Rightarrow> world \<Rightarrow> world" where
  "fetch req w = w\<lparr>requests := requests w @ [req]\<rparr>"

section \<open>Chat\<close>

text \<open>
  \<^verbatim>\<open>String.prototype.trim\<close>: strips the white space and line terminator code units of
  ECMAScript from both ends.
\<close>

definition is_white_space :: "nat \<Rightarrow> bool" where
  "is_white_space c =
     (c \<in> {0x09, 0x0A, 0x0B, 0x0C, 0x0D, 0x20, 0xA0, 0x1680, 0x2028, 0x2029, 0x202F, 0x205F,
            0x3000, 0xFEFF} \<or> (0x2000 \<le> c \<and> c \<le> 0x200A))"

definition trim :: "jsstring \<Rightarrow> jsstring" where
  "trim s = rev (dropWhile is_white_space (rev (dropWhile is_white_space s)))"

text \<open>
  \<^verbatim>\<open>addMessageToUI(role, text)\<close>: nothing without the container; a container holding only
  the placeholder is emptied first; then the wrapper is appended.
\<close>

definition addMessageToUI :: "jsstring \<Rightarrow> jsval \<Rightarrow> world \<Rightarrow> world" where
  "addMessageToUI role txt w =
     (case messagesContainer w of
        None \<Rightarrow> w
      | Some children \<Rightarrow>
          let cleared = (if children = [Placeholder] then [] else children);
              wrapper = Bubble (if role = js ''user'' then js ''message user''
                                else js ''message assistant'') txt
          in w\<lparr>messagesContainer := Some (cleared @ [wrapper])\<rparr>)"

definition newConversation :: "world \<Rightarrow> world" where
  "newConversation w =
     (let w1 = w\<lparr>currentConversationId := JNull\<rparr>
      in (case messagesContainer w1 of
            None \<Rightarrow> w1
          | Some children \<Rightarrow> w1\<lparr>messagesContainer := Some [Placeholder]\<rparr>))"

text \<open>The text of the assistant message that the \<^verbatim>\<open>catch\<close> block of \<^verbatim>\<open>sendMessage\<close> appends.\<close>

definition failure_text :: jsstring where
  "failure_text =
     [0x26A0, 0xFE0F] @ js '' Failed to reach LangChain backend.<br><br>'' @
     js ''Make sure it's running:<br><code>python langchain_backend.py</code>''"

definition empty_response :: jsstring where
  "empty_response = js ''(empty response)''"

text \<open>
  \<^verbatim>\<open>sendMessage\<close> up to \<^verbatim>\<open>await fetch\<close>: the two early returns, then the input is
  cleared, the user message is appended and the request is issued with the conversation
  id of that moment (\<^verbatim>\<open>state.currentConversationId || null\<close>).
\<close>

definition sendMessage_call :: "world \<Rightarrow> call" where
  "sendMessage_call w =
     (case chatInput w of
        None \<Rightarrow> Returned w
      | Some v \<Rightarrow>
          let message = trim v in
          if message = [] then Returned w
          else
            let w1 = w\<lparr>chatInput := Some []\<rparr>;
                w2 = addMessageToUI (js ''user'') (JStr message) w1
            in Awaiting (fetch (Post_chat message (js_or (currentConversationId w2) JNull)) w2))"

text \<open>
  The \<^verbatim>\<open>try\<close> block after the request has settled: the world it leaves and the error it
  threw, if any. \<^verbatim>\<open>res.json().catch(() => ({}))\<close> turns a body that is not JSON into the
  empty object. The two awaits are taken as one step: nothing of the state is read or
  written between them.
\<close>

definition sendMessage_try :: "world \<Rightarrow> fetch_outcome \<Rightarrow> world \<times> js_error option" where
  "sendMessage_try w out =
     (case out of
        Rejected m \<Rightarrow> (w, Some (NetworkError m))
      | Responded res \<Rightarrow>
          let data = (case json res of Inl m \<Rightarrow> JObj [] | Inr d \<Rightarrow> d) in
          if \<not> ok res then
            (if truthy data then
               (case get_prop data (js ''detail'') of
                  Inl e \<Rightarrow> (w, Some e)
                | Inr d \<Rightarrow> (w, Some (Error (js_or d (JStr (js ''Chat request failed''))))))
             else (w, Some (Error (JStr (js ''Chat request failed'')))))
          else
            (case get_prop data (js ''conversation_id'') of
               Inl e \<Rightarrow> (w, Some e)
             | Inr cid \<Rightarrow>
                 let w1 = (if truthy cid then w\<lparr>currentConversationId := cid\<rparr> else w) in
                 (case get_prop data (js ''response'') of
                    Inl e \<Rightarrow> (w1, Some e)
                  | Inr r \<Rightarrow>
                      (addMessageToUI (js ''assistant'') (js_or r (JStr empty_response)) w1,
                       None))))"

definition sendMessage_resume :: "world \<Rightarrow> fetch_outcome \<Rightarrow> world" where
  "sendMessage_resume w out =
     (case sendMessage_try w out of
        (w1, None) \<Rightarrow> w1
      | (w1, Some e) \<Rightarrow>
          addMessageToUI (js ''assistant'') (JStr failure_text)
            (w1\<lparr>console := console w1 @ [(js ''Chat error:'', e)]\<rparr>))"

text \<open>One send with nothing else running while its request is outstanding.\<close>

definition sendMessage :: "world \<Rightarrow> fetch_outcome \<Rightarrow> world" where
  "sendMessage w out =
     (case sendMessage_call w of
        Returned w1 \<Rightarrow> w1
      | Awaiting w1 \<Rightarrow> sendMessage_resume w1 out)"

text \<open>The message wrappers of the container, in order: the session's message sequence.\<close>

fun is_bubble :: "child \<Rightarrow> bool" where
  "is_bubble Placeholder = False"
| "is_bubble (Bubble c t) = True"

definition messages :: "world \<Rightarrow> child list" where
  "messages w = (case messagesContainer w of None \<Rightarrow> [] | Some children \<Rightarrow> filter is_bubble children)"

section \<open>Backend status check\<close>


definition offline_text :: jsstring where
  "offline_text = [0x2717] @ js '' Offline''"

text \<open>\<^verbatim>\<open>if (el) el.textContent = v\<close>: the text of an element that exists is replaced.\<close>

definition set_text :: "'a \<Rightarrow> 'a option \<Rightarrow> 'a option" where
  "set_text v el = (case el of None \<Rightarrow> None | Some old \<Rightarrow> Some v)"


definition checkSystemStatus_catch :: "js_error \<Rightarrow> world \<Rightarrow> world" where
  "checkSystemStatus_catch e w =
     w\<lparr>console := console w @ [(js ''Health check error:'', e)],
       backendStatus := set_text offline_text (backendStatus w),
       ragStatus := set_text (js ''-'') (ragStatus w),
       modelStatus := set_text (JStr (js ''-'')) (modelStatus w)\<rparr>"



section \<open>Documents\<close>

definition show_alert :: "alert \<Rightarrow> world \<Rightarrow> world" where
  "show_alert a w = w\<lparr>alerts := alerts w @ [a]\<rparr>"

text \<open>
  The items \<^verbatim>\<open>renderDocuments\<close> builds from \<^verbatim>\<open>Object.entries(docs)\<close>: reading
  \<^verbatim>\<open>doc.filename\<close> throws when an entry's metadata is \<^verbatim>\<open>null\<close> or \<^verbatim>\<open>undefined\<close>.
\<close>

fun render_items :: "(jsstring \<times> jsval) list \<Rightarrow> js_error + jsstring list" where
  "render_items [] = Inr []"
| "render_items ((doc_id, doc) # rest) =
     (case get_prop doc (js ''filename'') of
        Inl e \<Rightarrow> Inl e
      | Inr name \<Rightarrow> (case render_items rest of Inl e \<Rightarrow> Inl e | Inr ids \<Rightarrow> Inr (doc_id # ids)))"

definition renderDocuments :: "world \<Rightarrow> world \<times> js_error option" where
  "renderDocuments w =
     (case documentsList w of
        None \<Rightarrow> (w, None)
      | Some old \<Rightarrow>
          if documents w = [] then (w\<lparr>documentsList := Some No_documents_uploaded_yet\<rparr>, None)
          else
            (case render_items (documents w) of
               Inl e \<Rightarrow> (w, Some e)
             | Inr ids \<Rightarrow> (w\<lparr>documentsList := Some (Document_items ids)\<rparr>, None)))"

text \<open>\<^verbatim>\<open>delete state.documents[doc_id]\<close> on the registry, kept as the object's entries in order.\<close>

definition delete_key :: "jsstring \<Rightarrow> (jsstring \<times> jsval) list \<Rightarrow> (jsstring \<times> jsval) list" where
  "delete_key doc_id docs = filter (\<lambda>entry. fst entry \<noteq> doc_id) docs"

text \<open>
  \<^verbatim>\<open>deleteDocument(doc_id)\<close>; \<open>confirmed\<close> is what \<^verbatim>\<open>confirm(...)\<close> returns.
\<close>

definition deleteDocument_call :: "jsstring \<Rightarrow> bool \<Rightarrow> world \<Rightarrow> call" where
  "deleteDocument_call doc_id confirmed w =
     (if \<not> confirmed then Returned w else Awaiting (fetch (Delete_document doc_id) w))"

definition deleteDocument_resume :: "jsstring \<Rightarrow> world \<Rightarrow> fetch_outcome \<Rightarrow> world" where
  "deleteDocument_resume doc_id w out =
     (case out of
        Rejected m \<Rightarrow> show_alert (Error_deleting_document (NetworkError m)) w
      | Responded res \<Rightarrow>
          if \<not> ok res then
            show_alert (Error_deleting_document (Error (JStr (js ''Delete failed'')))) w
          else
            (case renderDocuments (w\<lparr>documents := delete_key doc_id (documents w)\<rparr>) of
               (w1, None) \<Rightarrow> w1
             | (w1, Some e) \<Rightarrow> show_alert (Error_deleting_document e) w1))"

definition deleteDocument :: "jsstring \<Rightarrow> bool \<Rightarrow> world \<Rightarrow> fetch_outcome \<Rightarrow> world" where
  "deleteDocument doc_id confirmed w out =
     (case deleteDocument_call doc_id confirmed w of
        Returned w1 \<Rightarrow> w1
      | Awaiting w1 \<Rightarrow> deleteDocument_resume doc_id w1 out)"

section \<open>Export\<close>




section \<open>Message rendering\<close>















section \<open>What the rendered markup may contain\<close>









section \<open>A page to run the handlers on\<close>

text \<open>
  The \<^verbatim>\<open>state\<close> object as the script creates it (no conversation, no documents), on a page
  that has every element the handlers look up, after \<^verbatim>\<open>newConversation\<close> has written the
  placeholder, and with no effect on the outside yet.
\<close>

definition initial_world :: world where
  "initial_world =
     \<lparr>currentConversationId = JNull, documents = [], chatInput = Some [],
      messagesContainer = Some [Placeholder], backendStatus = Some [], ragStatus = Some [],
      modelStatus = Some (JStr []), documentsList = Some No_documents_uploaded_yet,
      requests = [], alerts = [], console = [], downloads = []\<rparr>"

text \<open>Two successful chat responses that carry different conversation ids.\<close>

definition reply_a :: fetch_outcome where
  "reply_a = Responded \<lparr>status = 200,
      json = Inr (JObj [(js ''response'', JStr (js ''Hello'')), (js ''conversation_id'', JStr (js ''a''))]),
      blob = Inl []\<rparr>"

definition reply_b :: fetch_outcome where
  "reply_b = Responded \<lparr>status = 200,
      json = Inr (JObj [(js ''response'', JStr (js ''Again'')), (js ''conversation_id'', JStr (js ''b''))]),
      blob = Inl []\<rparr>"

text \<open>A registry entry as an upload response would have stored it.\<close>

definition report_pdf :: "jsstring \<times> jsval" where
  "report_pdf = (js ''d1'', JObj [(js ''filename'', JStr (js ''report.pdf''))])"

section \<open>Properties of the chat handlers\<close>

lemma role_class [simp]:
  "(js ''user'' = js ''user'') = True" "(js ''assistant'' = js ''user'') = False"
  by (simp_all add: js_def)

lemma addMessageToUI_messages:
  "messagesContainer w = Some cs \<Longrightarrow>
   messages (addMessageToUI role t w) =
     messages w @ [Bubble (if role = js ''user'' then js ''message user''
                           else js ''message assistant'') t]"
  by (simp add: addMessageToUI_def messages_def Let_def)

lemma addMessageToUI_frame [simp]:
  "currentConversationId (addMessageToUI role t w) = currentConversationId w"
  "requests (addMessageToUI role t w) = requests w"
  "chatInput (addMessageToUI role t w) = chatInput w"
  "console (addMessageToUI role t w) = console w"
  "alerts (addMessageToUI role t w) = alerts w"
  "downloads (addMessageToUI role t w) = downloads w"
  "documents (addMessageToUI role t w) = documents w"
  by (simp_all add: addMessageToUI_def Let_def split: option.splits)

lemma messages_frame [simp]:
  "messages (w\<lparr>chatInput := x\<rparr>) = messages w"
  "messages (w\<lparr>requests := r\<rparr>) = messages w"
  "messages (w\<lparr>console := c\<rparr>) = messages w"
  "messages (w\<lparr>currentConversationId := i\<rparr>) = messages w"
  by (simp_all add: messages_def)

lemma sendMessage_call_sends:
  assumes "chatInput w = Some v" and "trim v \<noteq> []"
  shows "sendMessage_call w =
     Awaiting (fetch (Post_chat (trim v) (js_or (currentConversationId w) JNull))
       (addMessageToUI (js ''user'') (JStr (trim v)) (w\<lparr>chatInput := Some []\<rparr>)))"
  using assms by (simp add: sendMessage_call_def Let_def)

text \<open>
  C6. When the input is empty after trimming (the empty string and strings of white space
  included), a send returns before it touches anything: the whole world, with its message
  sequence, its input field and its request log, is what it was.
\<close>

theorem C6_empty_input_is_noop:
  assumes "chatInput w = Some v" and "trim v = []"
  shows "sendMessage_call w = Returned w \<and> sendMessage w out = w"
  using assms by (simp add: sendMessage_def sendMessage_call_def)

text \<open>
  The empty string and a string of three spaces, on the initial page.
\<close>

theorem C6_empty_input_is_noop_witness:
  "trim [] = [] \<and> trim (js ''   '') = []
   \<and> sendMessage (initial_world\<lparr>chatInput := Some []\<rparr>) (Rejected [])
       = initial_world\<lparr>chatInput := Some []\<rparr>
   \<and> sendMessage (initial_world\<lparr>chatInput := Some (js ''   '')\<rparr>) (Rejected [])
       = initial_world\<lparr>chatInput := Some (js ''   '')\<rparr>"
  using C6_empty_input_is_noop [of "initial_world\<lparr>chatInput := Some []\<rparr>" "[]" "Rejected []"]
    C6_empty_input_is_noop [of "initial_world\<lparr>chatInput := Some (js ''   '')\<rparr>" "js ''   ''"
      "Rejected []"]
  by (simp add: trim_def js_def is_white_space_def)

lemma get_prop_Inl:
  "get_prop d k = Inl e \<Longrightarrow> d = JUndefined \<or> d = JNull"
  by (cases d) auto

lemma sendMessage_resume_messages:
  assumes "messagesContainer w = Some cs"
  shows "messages (sendMessage_resume w out) =
     messages w @
       [Bubble (js ''message assistant'')
          (case out of
             Rejected m \<Rightarrow> JStr failure_text
           | Responded res \<Rightarrow>
               if \<not> ok res then JStr failure_text
               else (case json res of
                       Inl m \<Rightarrow> JStr empty_response
                     | Inr data \<Rightarrow>
                         (case get_prop data (js ''response'') of
                            Inl e \<Rightarrow> JStr failure_text
                          | Inr r \<Rightarrow> js_or r (JStr empty_response))))]"
proof (cases out)
  case (Rejected m)
  then show ?thesis
    using assms by (simp add: sendMessage_resume_def sendMessage_try_def addMessageToUI_messages)
next
  case (Responded res)
  show ?thesis
  proof (cases "ok res")
    case False
    then show ?thesis
      using assms Responded
      by (auto simp add: sendMessage_resume_def sendMessage_try_def addMessageToUI_messages Let_def
          split: sum.splits)
  next
    case True
    then show ?thesis
      using assms Responded
      by (auto simp add: sendMessage_resume_def sendMessage_try_def addMessageToUI_messages Let_def
          js_or_def split: sum.splits dest: get_prop_Inl)
  qed
qed

lemma sendMessage_resume_id:
  "currentConversationId (sendMessage_resume w out) =
     (case out of
        Rejected m \<Rightarrow> currentConversationId w
      | Responded res \<Rightarrow>
          if \<not> ok res then currentConversationId w
          else (case json res of
                  Inl m \<Rightarrow> currentConversationId w
                | Inr data \<Rightarrow>
                    (case get_prop data (js ''conversation_id'') of
                       Inl e \<Rightarrow> currentConversationId w
                     | Inr cid \<Rightarrow> if truthy cid then cid else currentConversationId w)))"
  by (auto simp add: sendMessage_resume_def sendMessage_try_def Let_def js_or_def
      split: sum.splits fetch_outcome.splits dest: get_prop_Inl)

lemma sendMessage_resume_frame [simp]:
  "requests (sendMessage_resume w out) = requests w"
  "chatInput (sendMessage_resume w out) = chatInput w"
  "alerts (sendMessage_resume w out) = alerts w"
  "downloads (sendMessage_resume w out) = downloads w"
  "documents (sendMessage_resume w out) = documents w"
  by (auto simp add: sendMessage_resume_def sendMessage_try_def Let_def
      split: sum.splits fetch_outcome.splits)

lemma addMessageToUI_container_None [simp]:
  "(messagesContainer (addMessageToUI role t w) = None) = (messagesContainer w = None)"
  by (simp add: addMessageToUI_def Let_def split: option.splits)

lemma addMessageToUI_container_Some [simp]:
  "(\<exists>y. messagesContainer (addMessageToUI role t w) = Some y) = (\<exists>y. messagesContainer w = Some y)"
  using addMessageToUI_container_None [of role t w] by (simp only: not_None_eq [symmetric])

lemma sendMessage_resume_container [simp]:
  "(messagesContainer (sendMessage_resume w out) = None) = (messagesContainer w = None)"
  by (auto simp add: sendMessage_resume_def sendMessage_try_def Let_def
      split: sum.splits fetch_outcome.splits)

lemma fetch_frame [simp]:
  "messages (fetch req w) = messages w"
  "requests (fetch req w) = requests w @ [req]"
  "chatInput (fetch req w) = chatInput w"
  "currentConversationId (fetch req w) = currentConversationId w"
  "messagesContainer (fetch req w) = messagesContainer w"
  "alerts (fetch req w) = alerts w"
  "downloads (fetch req w) = downloads w"
  "documents (fetch req w) = documents w"
  by (simp_all add: fetch_def messages_def)

lemma sendMessage_resume_container_Some [simp]:
  "(\<exists>y. messagesContainer (sendMessage_resume w out) = Some y) = (\<exists>y. messagesContainer w = Some y)"
  using sendMessage_resume_container [of w out] by (simp only: not_None_eq [symmetric])

lemma sendMessage_call_world:
  assumes "chatInput w = Some v" and "trim v \<noteq> []" and "messagesContainer w = Some cs"
  shows "\<exists>w1. sendMessage_call w = Awaiting w1
     \<and> messages w1 = messages w @ [Bubble (js ''message user'') (JStr (trim v))]
     \<and> requests w1 = requests w @ [Post_chat (trim v) (js_or (currentConversationId w) JNull)]
     \<and> chatInput w1 = Some []
     \<and> currentConversationId w1 = currentConversationId w
     \<and> messagesContainer w1 \<noteq> None"
  using assms sendMessage_call_sends [OF assms(1,2)]
    addMessageToUI_messages [of "w\<lparr>chatInput := Some []\<rparr>" cs "js ''user''" "JStr (trim v)"]
  by simp

text \<open>
  C7. On a page with the input and the message container, when the input is not empty
  after trimming, the call appends exactly one user message with the trimmed text and
  issues the request before it suspends, so the message is there while the request is
  outstanding; and whatever the request settles to (a rejection, any status, any body),
  that message stays where it is, followed by the one assistant message.
\<close>

theorem C7_user_message_first:
  assumes "chatInput w = Some v" and "trim v \<noteq> []" and "messagesContainer w = Some cs"
  shows "\<exists>w1. sendMessage_call w = Awaiting w1
     \<and> messages w1 = messages w @ [Bubble (js ''message user'') (JStr (trim v))]
     \<and> requests w1 = requests w @ [Post_chat (trim v) (js_or (currentConversationId w) JNull)]
     \<and> (\<forall>out. \<exists>reply.
           messages (sendMessage_resume w1 out) =
             messages w @ [Bubble (js ''message user'') (JStr (trim v)),
                           Bubble (js ''message assistant'') reply])"
proof -
  obtain w1 where w1: "sendMessage_call w = Awaiting w1"
    and msgs: "messages w1 = messages w @ [Bubble (js ''message user'') (JStr (trim v))]"
    and reqs: "requests w1 = requests w @ [Post_chat (trim v) (js_or (currentConversationId w) JNull)]"
    and cont: "messagesContainer w1 \<noteq> None"
    using sendMessage_call_world [OF assms] by blast
  from cont obtain cs1 where cs1: "messagesContainer w1 = Some cs1"
    by auto
  have "\<exists>reply. messages (sendMessage_resume w1 out) =
      messages w @ [Bubble (js ''message user'') (JStr (trim v)),
                    Bubble (js ''message assistant'') reply]" for out
    using sendMessage_resume_messages [OF cs1, of out] msgs by simp
  with w1 msgs reqs show ?thesis
    by blast
qed

text \<open>
  The input \<^verbatim>\<open>" hi "\<close> on the initial page.
\<close>

theorem C7_user_message_first_witness:
  "trim (js '' hi '') = js ''hi''
   \<and> (\<exists>w1. sendMessage_call (initial_world\<lparr>chatInput := Some (js '' hi '')\<rparr>) = Awaiting w1
        \<and> messages w1 = [Bubble (js ''message user'') (JStr (js ''hi''))]
        \<and> requests w1 = [Post_chat (js ''hi'') JNull])"
proof -
  have t: "trim (js '' hi '') = js ''hi''"
    by (simp add: trim_def js_def is_white_space_def)
  have "chatInput (initial_world\<lparr>chatInput := Some (js '' hi '')\<rparr>) = Some (js '' hi '')"
    and "trim (js '' hi '') \<noteq> []"
    and "messagesContainer (initial_world\<lparr>chatInput := Some (js '' hi '')\<rparr>) = Some [Placeholder]"
    by (simp_all add: initial_world_def t) (simp add: js_def)
  from C7_user_message_first [OF this] t show ?thesis
    by (auto simp add: initial_world_def messages_def js_or_def)
qed


lemma js_literals [simp]:
  "js ''hi'' \<noteq> []" "js ''a'' \<noteq> []" "js ''b'' \<noteq> []" "js ''a'' \<noteq> js ''b''"
  "js ''response'' \<noteq> js ''conversation_id''"
  "js ''conversation_id'' \<noteq> js ''response''"
  by (simp_all add: js_def)

lemma trim_hi [simp]: "trim (js ''hi'') = js ''hi''"
  by (simp add: trim_def js_def is_white_space_def)

lemma initial_world_input [simp]:
  "chatInput (initial_world\<lparr>chatInput := Some v\<rparr>) = Some v"
  "messagesContainer (initial_world\<lparr>chatInput := Some v\<rparr>) = Some [Placeholder]"
  "messages initial_world = []"
  "requests (initial_world\<lparr>chatInput := Some v\<rparr>) = []"
  "currentConversationId (initial_world\<lparr>chatInput := Some v\<rparr>) = JNull"
  by (simp_all add: initial_world_def messages_def)


text \<open>
  C1, as the code has it. After a successful response (status 200 to 299, a JSON body that
  is not \<^verbatim>\<open>null\<close>) the conversation id is the response's \<^verbatim>\<open>conversation_id\<close> whenever that
  is truthy, whether the session had an id or not, and is unchanged when the response
  carries none.
\<close>

theorem C1_id_follows_response:
  assumes "chatInput w = Some v" and "trim v \<noteq> []"
    and "ok res" and "json res = Inr data"
    and "get_prop data (js ''conversation_id'') = Inr cid"
  shows "currentConversationId (sendMessage w (Responded res)) =
     (if truthy cid then cid else currentConversationId w)"
proof -
  let ?w1 = "fetch (Post_chat (trim v) (js_or (currentConversationId w) JNull))
       (addMessageToUI (js ''user'') (JStr (trim v)) (w\<lparr>chatInput := Some []\<rparr>))"
  have "sendMessage w (Responded res) = sendMessage_resume ?w1 (Responded res)"
    using sendMessage_call_sends [OF assms(1,2)] by (simp add: sendMessage_def)
  then show ?thesis
    using assms(3-5) by (simp add: sendMessage_resume_id)
qed

text \<open>
  The first send of a session: the id of the response is adopted.
\<close>

theorem C1_id_follows_response_witness:
  "currentConversationId (sendMessage (initial_world\<lparr>chatInput := Some (js ''hi'')\<rparr>) reply_a)
     = JStr (js ''a'')"
  using C1_id_follows_response [of "initial_world\<lparr>chatInput := Some (js ''hi'')\<rparr>" "js ''hi''"
      "\<lparr>status = 200,
        json = Inr (JObj [(js ''response'', JStr (js ''Hello'')), (js ''conversation_id'', JStr (js ''a''))]),
        blob = Inl []\<rparr>"
      "JObj [(js ''response'', JStr (js ''Hello'')), (js ''conversation_id'', JStr (js ''a''))]"
      "JStr (js ''a'')"]
  by (simp add: reply_a_def ok_def)

text \<open>
  C1 as stated fails: the first successful send adopts the id \<^verbatim>\<open>a\<close>, and a second successful
  send whose response carries \<^verbatim>\<open>b\<close> changes the id to \<^verbatim>\<open>b\<close>.
\<close>

theorem C1_counterexample:
  "currentConversationId (sendMessage (initial_world\<lparr>chatInput := Some (js ''hi'')\<rparr>) reply_a)
     = JStr (js ''a'')
   \<and> currentConversationId
       (sendMessage
          ((sendMessage (initial_world\<lparr>chatInput := Some (js ''hi'')\<rparr>) reply_a)
             \<lparr>chatInput := Some (js ''hi'')\<rparr>)
          reply_b)
     = JStr (js ''b'')
   \<and> JStr (js ''b'') \<noteq> JStr (js ''a'')"
proof -
  let ?w = "initial_world\<lparr>chatInput := Some (js ''hi'')\<rparr>"
  let ?w2 = "(sendMessage ?w reply_a)\<lparr>chatInput := Some (js ''hi'')\<rparr>"
  have 1: "sendMessage ?w reply_a =
      sendMessage_resume (fetch (Post_chat (js ''hi'') (js_or (currentConversationId ?w) JNull))
        (addMessageToUI (js ''user'') (JStr (js ''hi'')) (?w\<lparr>chatInput := Some []\<rparr>))) reply_a"
    using sendMessage_call_sends [of ?w "js ''hi''"] by (simp add: sendMessage_def)
  have 2: "sendMessage ?w2 reply_b =
      sendMessage_resume (fetch (Post_chat (js ''hi'') (js_or (currentConversationId ?w2) JNull))
        (addMessageToUI (js ''user'') (JStr (js ''hi'')) (?w2\<lparr>chatInput := Some []\<rparr>))) reply_b"
    using sendMessage_call_sends [of ?w2 "js ''hi''"] by (simp add: sendMessage_def)
  have a: "currentConversationId (sendMessage ?w reply_a) = JStr (js ''a'')"
    unfolding 1 by (simp add: sendMessage_resume_id reply_a_def ok_def)
  have b: "currentConversationId (sendMessage ?w2 reply_b) = JStr (js ''b'')"
    unfolding 2 by (simp add: sendMessage_resume_id reply_b_def ok_def)
  from a b show ?thesis
    by (simp add: js_def)
qed

lemma sendMessage_after_call:
  assumes "chatInput w = Some v" and "trim v \<noteq> []" and "messagesContainer w = Some cs"
  shows "\<exists>w1. sendMessage w out = sendMessage_resume w1 out
     \<and> messages w1 = messages w @ [Bubble (js ''message user'') (JStr (trim v))]
     \<and> requests w1 = requests w @ [Post_chat (trim v) (js_or (currentConversationId w) JNull)]
     \<and> currentConversationId w1 = currentConversationId w
     \<and> (\<exists>cs1. messagesContainer w1 = Some cs1)"
  using sendMessage_call_world [OF assms] by (auto simp add: sendMessage_def)

text \<open>
  C4, as the code has it, on a page with the input and the message container. When the
  request is rejected, the status is outside 200 to 299, or the body of a 2xx response is
  \<^verbatim>\<open>null\<close>: the user message stays, exactly one assistant message with the failure text
  follows it, the conversation id is unchanged, and the next send with a non-empty input
  appends its message and issues its request. When a 2xx response has a body that is not
  JSON, the user message stays and the conversation id is unchanged, but the assistant
  message is the placeholder for an empty response.
\<close>

theorem C4_failed_send:
  assumes "chatInput w = Some v" and "trim v \<noteq> []" and "messagesContainer w = Some cs"
  shows "((case out of Rejected m \<Rightarrow> True
           | Responded res \<Rightarrow> \<not> ok res \<or> json res = Inr JNull) \<longrightarrow>
          messages (sendMessage w out) =
            messages w @ [Bubble (js ''message user'') (JStr (trim v)),
                          Bubble (js ''message assistant'') (JStr failure_text)]
          \<and> currentConversationId (sendMessage w out) = currentConversationId w
          \<and> (trim v2 \<noteq> [] \<longrightarrow>
                (\<exists>w2. sendMessage_call ((sendMessage w out)\<lparr>chatInput := Some v2\<rparr>) = Awaiting w2
                   \<and> messages w2 =
                       messages (sendMessage w out) @ [Bubble (js ''message user'') (JStr (trim v2))]
                   \<and> requests w2 =
                       requests (sendMessage w out) @
                         [Post_chat (trim v2) (js_or (currentConversationId w) JNull)])))
     \<and> ((case out of Rejected m \<Rightarrow> False
           | Responded res \<Rightarrow> ok res \<and> (\<exists>m. json res = Inl m)) \<longrightarrow>
          messages (sendMessage w out) =
            messages w @ [Bubble (js ''message user'') (JStr (trim v)),
                          Bubble (js ''message assistant'') (JStr empty_response)]
          \<and> currentConversationId (sendMessage w out) = currentConversationId w)"
proof -
  obtain w1 cs1 where run: "sendMessage w out = sendMessage_resume w1 out"
    and msgs: "messages w1 = messages w @ [Bubble (js ''message user'') (JStr (trim v))]"
    and cid: "currentConversationId w1 = currentConversationId w"
    and cs1: "messagesContainer w1 = Some cs1"
    using sendMessage_after_call [OF assms] by blast
  have cont: "\<exists>cs2. messagesContainer ((sendMessage w out)\<lparr>chatInput := Some v2\<rparr>) = Some cs2" for v2
    using cs1 run sendMessage_resume_container [of w1 out] by auto
  have failing: "messages (sendMessage w out) =
            messages w @ [Bubble (js ''message user'') (JStr (trim v)),
                          Bubble (js ''message assistant'') (JStr failure_text)]
          \<and> currentConversationId (sendMessage w out) = currentConversationId w"
    if "case out of Rejected m \<Rightarrow> True | Responded res \<Rightarrow> \<not> ok res \<or> json res = Inr JNull"
    using that sendMessage_resume_messages [OF cs1, of out] sendMessage_resume_id [of w1 out]
    by (auto simp add: run msgs cid split: fetch_outcome.splits)
  have usable: "\<exists>w2. sendMessage_call ((sendMessage w out)\<lparr>chatInput := Some v2\<rparr>) = Awaiting w2
       \<and> messages w2 =
           messages (sendMessage w out) @ [Bubble (js ''message user'') (JStr (trim v2))]
       \<and> requests w2 =
           requests (sendMessage w out) @
             [Post_chat (trim v2) (js_or (currentConversationId (sendMessage w out)) JNull)]"
    if "trim v2 \<noteq> []" for v2
  proof -
    obtain cs2 where "messagesContainer ((sendMessage w out)\<lparr>chatInput := Some v2\<rparr>) = Some cs2"
      using cont by blast
    from sendMessage_call_world [OF _ that this] show ?thesis
      by auto
  qed
  have not_json: "messages (sendMessage w out) =
            messages w @ [Bubble (js ''message user'') (JStr (trim v)),
                          Bubble (js ''message assistant'') (JStr empty_response)]
          \<and> currentConversationId (sendMessage w out) = currentConversationId w"
    if "case out of Rejected m \<Rightarrow> False | Responded res \<Rightarrow> ok res \<and> (\<exists>m. json res = Inl m)"
    using that sendMessage_resume_messages [OF cs1, of out] sendMessage_resume_id [of w1 out]
    by (auto simp add: run msgs cid split: fetch_outcome.splits)
  show ?thesis
    using failing usable not_json by (metis (no_types, lifting))
qed

text \<open>
  A rejected request and a 500 response on the initial page, and the next send after the
  rejected one.
\<close>

theorem C4_failed_send_witness:
  "messages (sendMessage (initial_world\<lparr>chatInput := Some (js ''hi'')\<rparr>) (Rejected [])) =
     [Bubble (js ''message user'') (JStr (js ''hi'')),
      Bubble (js ''message assistant'') (JStr failure_text)]
   \<and> currentConversationId (sendMessage (initial_world\<lparr>chatInput := Some (js ''hi'')\<rparr>) (Rejected []))
       = JNull
   \<and> (\<exists>w2. sendMessage_call
               ((sendMessage (initial_world\<lparr>chatInput := Some (js ''hi'')\<rparr>) (Rejected []))
                  \<lparr>chatInput := Some (js ''hi'')\<rparr>) = Awaiting w2
          \<and> messages w2 =
              [Bubble (js ''message user'') (JStr (js ''hi'')),
               Bubble (js ''message assistant'') (JStr failure_text),
               Bubble (js ''message user'') (JStr (js ''hi''))]
          \<and> requests w2 = [Post_chat (js ''hi'') JNull, Post_chat (js ''hi'') JNull])
   \<and> messages (sendMessage (initial_world\<lparr>chatInput := Some (js ''hi'')\<rparr>)
        (Responded \<lparr>status = 500, json = Inr (JObj [(js ''detail'', JStr (js ''boom''))]),
                    blob = Inl []\<rparr>)) =
     [Bubble (js ''message user'') (JStr (js ''hi'')),
      Bubble (js ''message assistant'') (JStr failure_text)]"
proof -
  let ?w = "initial_world\<lparr>chatInput := Some (js ''hi'')\<rparr>"
  have c: "chatInput ?w = Some (js ''hi'')" "trim (js ''hi'') \<noteq> []"
    "messagesContainer ?w = Some [Placeholder]"
    by simp_all
  have r: "requests (sendMessage ?w (Rejected [])) = [Post_chat (js ''hi'') JNull]"
    using sendMessage_after_call [OF c, of "Rejected []"] by (auto simp add: js_or_def)
  show ?thesis
    using C4_failed_send [OF c, of "Rejected []" "js ''hi''"]
      C4_failed_send [OF c, of "Responded \<lparr>status = 500,
        json = Inr (JObj [(js ''detail'', JStr (js ''boom''))]), blob = Inl []\<rparr>" "js ''hi''"]
    by (auto simp add: ok_def r js_or_def)
qed

text \<open>
  C4 as stated fails for a malformed body: after a 200 response whose body is not JSON the
  assistant message is the placeholder for an empty response, not the failure text.
\<close>

theorem C4_counterexample:
  "messages (sendMessage (initial_world\<lparr>chatInput := Some (js ''hi'')\<rparr>)
      (Responded \<lparr>status = 200, json = Inl (js ''Unexpected token''), blob = Inl []\<rparr>)) =
     [Bubble (js ''message user'') (JStr (js ''hi'')),
      Bubble (js ''message assistant'') (JStr empty_response)]
   \<and> JStr empty_response \<noteq> JStr failure_text"
proof -
  let ?w = "initial_world\<lparr>chatInput := Some (js ''hi'')\<rparr>"
  let ?out = "Responded \<lparr>status = 200, json = Inl (js ''Unexpected token''), blob = Inl []\<rparr>"
  have c: "chatInput ?w = Some (js ''hi'')" "trim (js ''hi'') \<noteq> []"
    "messagesContainer ?w = Some [Placeholder]"
    by simp_all
  obtain w1 cs1 where run: "sendMessage ?w ?out = sendMessage_resume w1 ?out"
    and msgs: "messages w1 = messages ?w @ [Bubble (js ''message user'') (JStr (trim (js ''hi'')))]"
    and cs1: "messagesContainer w1 = Some cs1"
    using sendMessage_after_call [OF c] by blast
  have "messages (sendMessage ?w ?out) =
     [Bubble (js ''message user'') (JStr (js ''hi'')),
      Bubble (js ''message assistant'') (JStr empty_response)]"
    using sendMessage_resume_messages [OF cs1, of ?out] by (simp add: run msgs ok_def)
  moreover have "empty_response \<noteq> failure_text"
    by (simp add: empty_response_def failure_text_def js_def)
  ultimately show ?thesis
    by simp
qed

text \<open>
  C2, as the code has it. While a send is suspended on its request (\<open>w1\<close> is the world it
  left), a second call with an input that is not empty after trimming is not rejected: it
  appends its user message and issues its own request at once.
\<close>

theorem C2_second_send_not_rejected:
  assumes "sendMessage_call w0 = Awaiting w1"
    and "messagesContainer w1 = Some cs" and "trim v \<noteq> []"
  shows "\<exists>w2. sendMessage_call (w1\<lparr>chatInput := Some v\<rparr>) = Awaiting w2
     \<and> messages w2 = messages w1 @ [Bubble (js ''message user'') (JStr (trim v))]
     \<and> requests w2 = requests w1 @ [Post_chat (trim v) (js_or (currentConversationId w1) JNull)]"
proof -
  have "chatInput (w1\<lparr>chatInput := Some v\<rparr>) = Some v"
    and "messagesContainer (w1\<lparr>chatInput := Some v\<rparr>) = Some cs"
    using assms(2) by simp_all
  from sendMessage_call_world [OF this(1) assms(3) this(2)] show ?thesis
    by auto
qed

text \<open>
  C2 as stated fails: the first call suspends on its request; in the world it left, with a
  new input typed, the second call appends a second user message and issues a second
  request.
\<close>

theorem C2_counterexample:
  "sendMessage_call (initial_world\<lparr>chatInput := Some (js ''hi'')\<rparr>) =
     Awaiting (initial_world
       \<lparr>chatInput := Some [],
        messagesContainer := Some [Bubble (js ''message user'') (JStr (js ''hi''))],
        requests := [Post_chat (js ''hi'') JNull]\<rparr>)
   \<and> sendMessage_call (initial_world
       \<lparr>chatInput := Some (js ''again''),
        messagesContainer := Some [Bubble (js ''message user'') (JStr (js ''hi''))],
        requests := [Post_chat (js ''hi'') JNull]\<rparr>) =
     Awaiting (initial_world
       \<lparr>chatInput := Some [],
        messagesContainer := Some [Bubble (js ''message user'') (JStr (js ''hi'')),
                                   Bubble (js ''message user'') (JStr (js ''again''))],
        requests := [Post_chat (js ''hi'') JNull, Post_chat (js ''again'') JNull]\<rparr>)"
proof -
  have "trim (js ''again'') = js ''again''" and "js ''again'' \<noteq> []"
    by (simp_all add: trim_def js_def is_white_space_def)
  then show ?thesis
    by (simp add: sendMessage_call_def addMessageToUI_def fetch_def js_or_def Let_def
        initial_world_def)
qed

text \<open>
  Two calls in a row on the initial page, the second while the first is suspended.
\<close>

theorem C2_second_send_not_rejected_witness:
  "\<exists>w1 w2. sendMessage_call (initial_world\<lparr>chatInput := Some (js ''hi'')\<rparr>) = Awaiting w1
     \<and> sendMessage_call (w1\<lparr>chatInput := Some (js ''hi'')\<rparr>) = Awaiting w2
     \<and> messages w2 = messages w1 @ [Bubble (js ''message user'') (JStr (js ''hi''))]
     \<and> requests w2 = requests w1 @ [Post_chat (js ''hi'') JNull]"
proof -
  let ?w = "initial_world\<lparr>chatInput := Some (js ''hi'')\<rparr>"
  have c: "chatInput ?w = Some (js ''hi'')" "trim (js ''hi'') \<noteq> []"
    "messagesContainer ?w = Some [Placeholder]"
    by simp_all
  obtain w1 where w1: "sendMessage_call ?w = Awaiting w1"
    and i1: "currentConversationId w1 = currentConversationId ?w"
    and "messagesContainer w1 \<noteq> None"
    using sendMessage_call_world [OF c] by blast
  then obtain cs1 where cs1: "messagesContainer w1 = Some cs1"
    by auto
  from C2_second_send_not_rejected [OF w1 cs1 c(2)] w1 i1 show ?thesis
    by (auto simp add: js_or_def)
qed

section \<open>Properties of the status check, the export and the documents\<close>



lemma checkSystemStatus_catch_fields [simp]:
  "backendStatus (checkSystemStatus_catch e w) = set_text offline_text (backendStatus w)"
  "modelStatus (checkSystemStatus_catch e w) = set_text (JStr (js ''-'')) (modelStatus w)"
  "console (checkSystemStatus_catch e w) = console w @ [(js ''Health check error:'', e)]"
  "requests (checkSystemStatus_catch e w) = requests w"
  by (simp_all add: checkSystemStatus_catch_def)

lemma set_text_twice [simp]: "set_text a (set_text b el) = set_text a el"
  by (cases el) (simp_all add: set_text_def)









lemma renderDocuments_documents [simp]:
  "documents (fst (renderDocuments w)) = documents w"
  by (simp add: renderDocuments_def split: option.splits sum.splits)

lemma delete_key_map_of:
  "map_of (delete_key doc_id docs) k = (if k = doc_id then None else map_of docs k)"
  by (induction docs) (auto simp add: delete_key_def)

lemma deleteDocument_resume_ok:
  "ok res \<Longrightarrow>
   documents (deleteDocument_resume doc_id w (Responded res)) = delete_key doc_id (documents w)"
proof -
  assume "ok res"
  have "documents (fst (renderDocuments (w\<lparr>documents := delete_key doc_id (documents w)\<rparr>)))
      = delete_key doc_id (documents w)"
    by simp
  then show ?thesis
    using \<open>ok res\<close>
    by (cases "renderDocuments (w\<lparr>documents := delete_key doc_id (documents w)\<rparr>)")
      (auto simp add: deleteDocument_resume_def show_alert_def split: option.splits)
qed

text \<open>
  C9. Without confirmation a delete changes nothing. With confirmation, when the request is
  rejected or the status is outside 200 to 299, one request has been issued, the registry
  is what it was and the error is shown in an alert. With confirmation and a 2xx status
  the entry is removed and every other entry is kept. So the registry changes only after
  a confirmation and a 2xx response.
\<close>

theorem C9_delete:
  "deleteDocument doc_id False w out = w
   \<and> ((case out of Rejected m \<Rightarrow> True | Responded res \<Rightarrow> \<not> ok res) \<longrightarrow>
        (\<exists>e. deleteDocument doc_id True w out =
           w\<lparr>requests := requests w @ [Delete_document doc_id],
             alerts := alerts w @ [Error_deleting_document e]\<rparr>))
   \<and> ((case out of Rejected m \<Rightarrow> False | Responded res \<Rightarrow> ok res) \<longrightarrow>
        documents (deleteDocument doc_id True w out) = delete_key doc_id (documents w)
        \<and> map_of (documents (deleteDocument doc_id True w out)) doc_id = None
        \<and> (\<forall>k. k \<noteq> doc_id \<longrightarrow>
              map_of (documents (deleteDocument doc_id True w out)) k = map_of (documents w) k))
   \<and> (documents (deleteDocument doc_id confirmed w out) \<noteq> documents w \<longrightarrow>
        confirmed \<and> (case out of Rejected m \<Rightarrow> False | Responded res \<Rightarrow> ok res))"
proof -
  have unconfirmed: "deleteDocument doc_id False w out = w"
    by (simp add: deleteDocument_def deleteDocument_call_def)
  have failed: "\<exists>e. deleteDocument doc_id True w out =
           w\<lparr>requests := requests w @ [Delete_document doc_id],
             alerts := alerts w @ [Error_deleting_document e]\<rparr>"
    if "case out of Rejected m \<Rightarrow> True | Responded res \<Rightarrow> \<not> ok res"
    using that
    by (auto simp add: deleteDocument_def deleteDocument_call_def deleteDocument_resume_def
        show_alert_def fetch_def split: fetch_outcome.splits)
  have deleted: "documents (deleteDocument doc_id True w out) = delete_key doc_id (documents w)"
    if "case out of Rejected m \<Rightarrow> False | Responded res \<Rightarrow> ok res"
    using that deleteDocument_resume_ok [of _ doc_id "fetch (Delete_document doc_id) w"]
    by (auto simp add: deleteDocument_def deleteDocument_call_def fetch_def
        split: fetch_outcome.splits)
  have only_then: "confirmed \<and> (case out of Rejected m \<Rightarrow> False | Responded res \<Rightarrow> ok res)"
    if changed: "documents (deleteDocument doc_id confirmed w out) \<noteq> documents w"
  proof -
    have "confirmed"
      using changed unconfirmed by (cases confirmed) auto
    moreover have "case out of Rejected m \<Rightarrow> False | Responded res \<Rightarrow> ok res"
    proof (rule ccontr)
      assume "\<not> (case out of Rejected m \<Rightarrow> False | Responded res \<Rightarrow> ok res)"
      then have "case out of Rejected m \<Rightarrow> True | Responded res \<Rightarrow> \<not> ok res"
        by (simp split: fetch_outcome.splits)
      from failed [OF this] changed \<open>confirmed\<close> show False
        by auto
    qed
    ultimately show ?thesis
      by simp
  qed
  have looked_up: "map_of (documents (deleteDocument doc_id True w out)) doc_id = None
      \<and> (\<forall>k. k \<noteq> doc_id \<longrightarrow>
            map_of (documents (deleteDocument doc_id True w out)) k = map_of (documents w) k)"
    if "case out of Rejected m \<Rightarrow> False | Responded res \<Rightarrow> ok res"
    using deleted [OF that] by (simp add: delete_key_map_of)
  show ?thesis
    using unconfirmed failed deleted looked_up only_then by blast
qed

text \<open>
  One document in the registry: a delete that is not confirmed, a confirmed delete answered
  with 404, and a confirmed delete answered with 204.
\<close>

theorem C9_delete_witness:
  "deleteDocument (js ''d1'') False (initial_world\<lparr>documents := [report_pdf]\<rparr>)
      (Responded \<lparr>status = 204, json = Inl [], blob = Inr []\<rparr>)
     = initial_world\<lparr>documents := [report_pdf]\<rparr>
   \<and> deleteDocument (js ''d1'') True (initial_world\<lparr>documents := [report_pdf]\<rparr>)
      (Responded \<lparr>status = 404, json = Inl [], blob = Inr []\<rparr>)
     = initial_world\<lparr>documents := [report_pdf], requests := [Delete_document (js ''d1'')],
         alerts := [Error_deleting_document (Error (JStr (js ''Delete failed'')))]\<rparr>
   \<and> documents (deleteDocument (js ''d1'') True (initial_world\<lparr>documents := [report_pdf]\<rparr>)
      (Responded \<lparr>status = 204, json = Inl [], blob = Inr []\<rparr>)) = []"
proof -
  let ?w = "initial_world\<lparr>documents := [report_pdf]\<rparr>"
  have "deleteDocument (js ''d1'') True ?w (Responded \<lparr>status = 404, json = Inl [], blob = Inr []\<rparr>)
     = initial_world\<lparr>documents := [report_pdf], requests := [Delete_document (js ''d1'')],
         alerts := [Error_deleting_document (Error (JStr (js ''Delete failed'')))]\<rparr>"
    by (simp add: deleteDocument_def deleteDocument_call_def deleteDocument_resume_def
        show_alert_def fetch_def ok_def initial_world_def)
  then show ?thesis
    using C9_delete [of "js ''d1''" ?w "Responded \<lparr>status = 204, json = Inl [], blob = Inr []\<rparr>" True]
    by (simp add: ok_def delete_key_def report_pdf_def initial_world_def)
qed

section \<open>Properties of the message rendering\<close>













































end
